theory Spec2Isabelle
  imports
    Main
    "HOL-Library.Word"
    "HOL-Library.List_Lexorder"
    "HOL-Library.Product_Lexorder"
    "HOL-Library.Multiset"
begin

section \<open>Friend chat over a document store: the model of \<open>src/App.jsx\<close>\<close>

text \<open>
  The application is one React component whose handlers read and write a remote document
  store. The model has three layers:
  \<^item> strings and the pure helper \<open>getChatId\<close>;
  \<^item> the document store: one map per collection, writes as values, a commit that
    applies a list of writes entirely or not at all, and the snapshot of a query;
  \<^item> the component: its state as a record, its memoised values as functions of that
    record, and every handler as a function from the component state, the environment
    (reachability of the store, the store's clock) and the store to the new state.
\<close>

subsection \<open>Strings\<close>

text \<open>
  A JavaScript string is a sequence of 16-bit code units. Strings are compared
  lexicographically by code unit, which is what the default comparison of
  \<open>Array.prototype.sort\<close> does. \<open>js\<close> turns a literal of the source into its code
  units.
\<close>

type_synonym code_unit = "16 word"

type_synonym js_string = "code_unit list"

definition js :: "string \<Rightarrow> js_string" where
  "js s = map of_char s"

text \<open>
  The code units that \<open>String.prototype.trim\<close> removes: the white space and line
  terminator code points of ECMAScript (tab, line feed, vertical tab, form feed, carriage
  return, space, no-break space, the space separators of Unicode, line and paragraph
  separator, and the byte order mark). All of them are single code units.
\<close>

definition js_whitespace :: "code_unit \<Rightarrow> bool" where
  "js_whitespace u \<longleftrightarrow>
     u = 0x0009 \<or> u = 0x000A \<or> u = 0x000B \<or> u = 0x000C \<or> u = 0x000D \<or> u = 0x0020 \<or>
     u = 0x00A0 \<or> u = 0x1680 \<or> (0x2000 \<le> u \<and> u \<le> 0x200A) \<or> u = 0x2028 \<or>
     u = 0x2029 \<or> u = 0x202F \<or> u = 0x205F \<or> u = 0x3000 \<or> u = 0xFEFF"

text \<open>\<open>String.prototype.trim\<close>: white space is removed at both ends.\<close>

definition trim :: "js_string \<Rightarrow> js_string" where
  "trim s = rev (dropWhile js_whitespace (rev (dropWhile js_whitespace s)))"

text \<open>
  \<open>String.prototype.toLowerCase\<close> is the Unicode case mapping of the JavaScript
  runtime. The model does not fix it: every definition that lowercases takes the mapping as
  its argument \<open>toLowerCase\<close>, so that what is proved holds for the runtime's mapping.
\<close>

text \<open>\<open>Array.prototype.join\<close> on an array of strings.\<close>

fun join :: "js_string \<Rightarrow> js_string list \<Rightarrow> js_string" where
  "join sep [] = []"
| "join sep [x] = x"
| "join sep (x # y # ys) = x @ sep @ join sep (y # ys)"

text \<open>
  \<^verbatim>\<open>function getChatId(uidA, uidB) { return [uidA, uidB].sort().join("__"); }\<close>
\<close>

definition getChatId :: "js_string \<Rightarrow> js_string \<Rightarrow> js_string" where
  "getChatId uidA uidB = join (js ''__'') (sort [uidA, uidB])"

subsection \<open>The document store\<close>

text \<open>
  One map per collection of section 6 of the specification:
  \<^verbatim>\<open>usernames/{handle}\<close>, \<^verbatim>\<open>users/{uid}\<close>, \<^verbatim>\<open>users/{uid}/friends/{otherUid}\<close>,
  \<^verbatim>\<open>friendRequests/{id}\<close>, \<^verbatim>\<open>chats/{channelId}\<close> and
  \<^verbatim>\<open>chats/{channelId}/messages/{id}\<close>. The messages of a channel are kept as a list
  of identifier and data, in the order in which the store received them. A document is
  addressed by its identifier, which is one segment of its path: the maps are keyed by
  identifiers that hold no slash.
\<close>

datatype req_status = Pending | Accepted | Rejected

record username_doc =
  dir_uid :: js_string
  dir_email :: js_string
  dir_username :: js_string

record user_doc =
  profile_username :: js_string
  profile_email :: js_string
  profile_createdAt :: nat

record friend_doc =
  friend_username :: js_string
  addedAt :: nat

record request_doc =
  fromUid :: js_string
  fromUsername :: js_string
  toUid :: js_string
  toUsername :: js_string
  status :: req_status
  createdAt :: nat
  respondedAt :: "nat option"

record chat_doc =
  members :: "js_string list"
  updatedAt :: nat

text \<open>
  A message as the application writes it, \<^verbatim>\<open>{authorUid, authorUsername, text}\<close>, and as
  the store holds it, with the creation time.
\<close>

record message_payload =
  authorUid :: js_string
  authorUsername :: js_string
  msg_text :: js_string

record message_doc = message_payload +
  doc_createdAt :: nat

record store =
  usernames :: "js_string \<rightharpoonup> username_doc"
  users :: "js_string \<rightharpoonup> user_doc"
  friendsOf :: "js_string \<times> js_string \<rightharpoonup> friend_doc"
  friendRequests :: "js_string \<rightharpoonup> request_doc"
  chats :: "js_string \<rightharpoonup> chat_doc"
  chatMessages :: "js_string \<Rightarrow> (js_string \<times> message_doc) list"

text \<open>A rejected promise carries an error object with a message.\<close>

datatype js_error = Error js_string

text \<open>
  The value of a time field in a write: \<^verbatim>\<open>serverTimestamp()\<close>, a placeholder that the
  store replaces by its own clock when the write is committed, or a time the client
  chose. The store's clock at the commit is \<open>now\<close>.
\<close>

datatype time_field = ServerTimestamp | ClientTime nat

fun resolve_time :: "nat \<Rightarrow> time_field \<Rightarrow> nat" where
  "resolve_time now ServerTimestamp = now"
| "resolve_time now (ClientTime t) = t"

text \<open>
  The writes the application issues, as values.
  \<^item> \<open>SetUsername h uid email username\<close>: \<^verbatim>\<open>setDoc(doc(db, "usernames", h), {uid, email, username})\<close>
  \<^item> \<open>SetUser uid username email createdAt\<close>: \<^verbatim>\<open>setDoc(doc(db, "users", uid), {username, email, createdAt})\<close>
  \<^item> \<open>SetFriend a b name addedAt\<close>: \<^verbatim>\<open>set(doc(db, "users", a, "friends", b), {username, addedAt})\<close>
  \<^item> \<open>SetRequest id from fromName to toName status createdAt\<close>: \<^verbatim>\<open>setDoc(doc(db, "friendRequests", id), {...})\<close>
  \<^item> \<open>UpdateRequest id status respondedAt\<close>: \<^verbatim>\<open>update(doc(db, "friendRequests", id), {status, respondedAt})\<close>
  \<^item> \<open>MergeChat id ms updatedAt\<close>: \<^verbatim>\<open>set(doc(db, "chats", id), {members: ms, updatedAt}, {merge: true})\<close>
  \<^item> \<open>AddMessage chat id uid name txt createdAt\<close>: \<^verbatim>\<open>addDoc(collection(db, "chats", chat, "messages"), {...})\<close>,
    \<open>id\<close> being the identifier generated for the new document.
\<close>

datatype fs_write =
    SetUsername js_string js_string js_string js_string
  | SetUser js_string js_string js_string time_field
  | SetFriend js_string js_string js_string time_field
  | SetRequest js_string js_string js_string js_string js_string req_status time_field
  | UpdateRequest js_string req_status time_field
  | MergeChat js_string "js_string list" time_field
  | AddMessage js_string js_string js_string js_string js_string time_field

text \<open>
  One write at the store's time \<open>now\<close>. A set replaces the document. An update of a
  document that does not exist fails. A merge overwrites the fields it names and creates
  the document when there is none; a channel document has no other field than the two the
  merge names. An added document must be new: the write fails when the collection holds a
  document of the generated identifier.
\<close>

fun apply_write :: "nat \<Rightarrow> fs_write \<Rightarrow> store \<Rightarrow> js_error + store" where
  "apply_write now (SetUsername h u e n) st =
     Inr (st\<lparr>usernames := (usernames st)(h \<mapsto> \<lparr>dir_uid = u, dir_email = e, dir_username = n\<rparr>)\<rparr>)"
| "apply_write now (SetUser u n e t) st =
     Inr (st\<lparr>users := (users st)(u \<mapsto>
        \<lparr>profile_username = n, profile_email = e, profile_createdAt = resolve_time now t\<rparr>)\<rparr>)"
| "apply_write now (SetFriend a b n t) st =
     Inr (st\<lparr>friendsOf := (friendsOf st)((a, b) \<mapsto>
        \<lparr>friend_username = n, addedAt = resolve_time now t\<rparr>)\<rparr>)"
| "apply_write now (SetRequest i f fn tu tn s t) st =
     Inr (st\<lparr>friendRequests := (friendRequests st)(i \<mapsto>
        \<lparr>fromUid = f, fromUsername = fn, toUid = tu, toUsername = tn,
         status = s, createdAt = resolve_time now t, respondedAt = None\<rparr>)\<rparr>)"
| "apply_write now (UpdateRequest i s t) st =
     (case friendRequests st i of
        None \<Rightarrow> Inl (Error (js ''No document to update''))
      | Some r \<Rightarrow> Inr (st\<lparr>friendRequests := (friendRequests st)(i \<mapsto>
          r\<lparr>status := s, respondedAt := Some (resolve_time now t)\<rparr>)\<rparr>))"
| "apply_write now (MergeChat i ms t) st =
     Inr (st\<lparr>chats := (chats st)(i \<mapsto> \<lparr>members = ms, updatedAt = resolve_time now t\<rparr>)\<rparr>)"
| "apply_write now (AddMessage c i u n txt t) st =
     (if i \<in> fst ` set (chatMessages st c) then Inl (Error (js ''Document already exists''))
      else Inr (st\<lparr>chatMessages := (chatMessages st)(c := chatMessages st c @
        [(i, \<lparr>authorUid = u, authorUsername = n, msg_text = txt,
              doc_createdAt = resolve_time now t\<rparr>)])\<rparr>))"

fun apply_writes :: "nat \<Rightarrow> fs_write list \<Rightarrow> store \<Rightarrow> js_error + store" where
  "apply_writes now [] st = Inr st"
| "apply_writes now (w # ws) st =
     (case apply_write now w st of Inl e \<Rightarrow> Inl e | Inr st' \<Rightarrow> apply_writes now ws st')"

text \<open>
  \<^verbatim>\<open>batch.commit()\<close>, and a single \<^verbatim>\<open>setDoc\<close>, \<^verbatim>\<open>updateDoc\<close> or \<^verbatim>\<open>addDoc\<close> as a
  batch of one. \<open>ok\<close> says whether the request reaches the store and is permitted. The
  result is the error and the store as it was, or the store with every write applied.
\<close>

definition unavailable :: js_error where
  "unavailable = Error (js ''unavailable'')"

definition commit :: "bool \<Rightarrow> nat \<Rightarrow> fs_write list \<Rightarrow> store \<Rightarrow> js_error + store" where
  "commit ok now ws st = (if ok then apply_writes now ws st else Inl unavailable)"

text \<open>
  A query on the messages of a channel, \<^verbatim>\<open>query(collection(db, "chats", chat, "messages"),
  orderBy("createdAt", direction))\<close>, and the documents of one snapshot of it as a client
  sees them, each with its identifier and what \<^verbatim>\<open>doc.data()\<close> returns.

  A snapshot holds the documents the store has committed, with their creation times,
  ordered by creation time and, at equal times, by identifier. It also holds the client's
  own writes to the channel that the store has not acknowledged yet (\<open>own_pending\<close>, in
  the order in which they were issued): their \<^verbatim>\<open>serverTimestamp()\<close> is not resolved, so
  \<^verbatim>\<open>createdAt\<close> reads \<^verbatim>\<open>null\<close>, and they are ordered after every committed time.
\<close>

datatype direction = Asc | Desc

record messages_query =
  q_chat :: js_string
  q_direction :: direction

record message_data = message_payload +
  data_createdAt :: "nat option"

definition committed_data :: "message_doc \<Rightarrow> message_data" where
  "committed_data d =
     \<lparr>authorUid = authorUid d, authorUsername = authorUsername d, msg_text = msg_text d,
      data_createdAt = Some (doc_createdAt d)\<rparr>"

definition pending_data :: "message_payload \<Rightarrow> message_data" where
  "pending_data p =
     \<lparr>authorUid = authorUid p, authorUsername = authorUsername p, msg_text = msg_text p,
      data_createdAt = None\<rparr>"

definition snapshot_docs ::
  "store \<Rightarrow> (js_string \<times> message_payload) list \<Rightarrow> messages_query \<Rightarrow>
     (js_string \<times> message_data) list" where
  "snapshot_docs st own_pending q =
     (let committed = map (\<lambda>d. (fst d, committed_data (snd d)))
            (sort_key (\<lambda>d. (doc_createdAt (snd d), fst d)) (chatMessages st (q_chat q)));
          pending = map (\<lambda>p. (fst p, pending_data (snd p))) own_pending
      in case q_direction q of
           Asc \<Rightarrow> committed @ pending
         | Desc \<Rightarrow> rev (committed @ pending))"

subsection \<open>The component state\<close>

text \<open>
  The objects the component keeps: a friend is \<^verbatim>\<open>{uid: item.id, ...item.data()}\<close>, a
  request is \<^verbatim>\<open>{id: item.id, ...item.data()}\<close>, a message is
  \<^verbatim>\<open>{id: doc.id, ...doc.data()}\<close>. The \<^verbatim>\<open>createdAt\<close> of a message is \<open>None\<close> for
  \<^verbatim>\<open>null\<close>, which \<^verbatim>\<open>formatTime\<close> shows as \<^verbatim>\<open>sending...\<close>.
\<close>

record friend =
  uid :: js_string
  f_username :: js_string
  f_addedAt :: nat

record request_item = request_doc +
  req_id :: js_string

record message = message_payload +
  msg_id :: js_string
  msg_createdAt :: "nat option"

datatype auth_mode = Login | Register

text \<open>
  The \<^verbatim>\<open>useState\<close> cells of \<^verbatim>\<open>App\<close>. \<open>currentUser\<close> is the signed-in account's
  uid, or \<open>None\<close> for \<^verbatim>\<open>null\<close>; \<open>statusText\<close> is the cell \<^verbatim>\<open>status\<close>.
\<close>

record app =
  mode :: auth_mode
  username :: js_string
  email :: js_string
  password :: js_string
  currentUser :: "js_string option"
  fixedUsername :: js_string
  searchName :: js_string
  draft :: js_string
  messages :: "message list"
  friends :: "friend list"
  incomingRequests :: "request_item list"
  activeFriend :: "friend option"
  statusText :: js_string
  authError :: js_string
  friendError :: js_string

text \<open>The \<^verbatim>\<open>useMemo\<close> values.\<close>

definition normalizedUsername :: "(js_string \<Rightarrow> js_string) \<Rightarrow> app \<Rightarrow> js_string" where
  "normalizedUsername toLowerCase c = toLowerCase (trim (username c))"

definition normalizedSearchName :: "(js_string \<Rightarrow> js_string) \<Rightarrow> app \<Rightarrow> js_string" where
  "normalizedSearchName toLowerCase c = toLowerCase (trim (searchName c))"

definition trimmedName :: "app \<Rightarrow> js_string" where
  "trimmedName c = trim (fixedUsername c)"

definition trimmedDraft :: "app \<Rightarrow> js_string" where
  "trimmedDraft c = trim (draft c)"

definition activeChatId :: "app \<Rightarrow> js_string" where
  "activeChatId c =
     (case currentUser c of
        None \<Rightarrow> []
      | Some u \<Rightarrow> (case activeFriend c of None \<Rightarrow> [] | Some f \<Rightarrow> getChatId u (uid f)))"

subsection \<open>Subscriptions\<close>

text \<open>\<^verbatim>\<open>(doc) => ({ id: doc.id, ...doc.data() })\<close>\<close>

definition to_message :: "js_string \<times> message_data \<Rightarrow> message" where
  "to_message d =
     \<lparr>authorUid = authorUid (snd d), authorUsername = authorUsername (snd d),
      msg_text = msg_text (snd d), msg_id = fst d, msg_createdAt = data_createdAt (snd d)\<rparr>"

text \<open>
  The success callback of the messages subscription:
  \<^verbatim>\<open>setMessages(snapshot.docs.map(...)); setStatus("Connected")\<close>.
\<close>

definition onMessagesSnapshot :: "(js_string \<times> message_data) list \<Rightarrow> app \<Rightarrow> app" where
  "onMessagesSnapshot docs c =
     c\<lparr>messages := map to_message docs, statusText := js ''Connected''\<rparr>"

text \<open>
  The query of the messages effect (lines 76 and 77): the messages of the active channel,
  ascending in \<^verbatim>\<open>createdAt\<close>.
\<close>

definition messagesQuery :: "app \<Rightarrow> messages_query" where
  "messagesQuery c = \<lparr>q_chat = activeChatId c, q_direction = Asc\<rparr>"

text \<open>
  The messages effect followed by one delivery of its subscription: without a user, a
  loaded handle and a channel the list is emptied and nothing is subscribed; otherwise
  the snapshot of the query is delivered, taken from the store \<open>st\<close> and from the
  client's own unacknowledged writes to the channel.
\<close>

definition messagesDelivery ::
  "app \<Rightarrow> store \<Rightarrow> (js_string \<times> message_payload) list \<Rightarrow> app" where
  "messagesDelivery c st own_pending =
     (if currentUser c = None \<or> trimmedName c = [] \<or> activeChatId c = [] then c\<lparr>messages := []\<rparr>
      else (case activeFriend c of
              None \<Rightarrow> c\<lparr>messages := []\<rparr>
            | Some f \<Rightarrow> onMessagesSnapshot (snapshot_docs st own_pending (messagesQuery c))
                (c\<lparr>statusText := js ''Chatting with @'' @ f_username f\<rparr>)))"

text \<open>\<^verbatim>\<open>nextFriends[0] || null\<close>\<close>

definition first_or_null :: "'a list \<Rightarrow> 'a option" where
  "first_or_null xs = (case xs of [] \<Rightarrow> None | x # _ \<Rightarrow> Some x)"

text \<open>
  The callback of the friends subscription:
  \<^verbatim>\<open>
  setFriends(nextFriends);
  setActiveFriend((prev) => {
    if (!prev) return nextFriends[0] || null;
    const stillExists = nextFriends.some((friend) => friend.uid === prev.uid);
    return stillExists ? prev : nextFriends[0] || null;
  });
  \<close>
\<close>

definition onFriendsSnapshot :: "friend list \<Rightarrow> app \<Rightarrow> app" where
  "onFriendsSnapshot nextFriends c =
     c\<lparr>friends := nextFriends,
       activeFriend :=
         (case activeFriend c of
            None \<Rightarrow> first_or_null nextFriends
          | Some prev \<Rightarrow>
              (let stillExists = list_ex (\<lambda>friend. uid friend = uid prev) nextFriends
               in if stillExists then Some prev else first_or_null nextFriends))\<rparr>"

definition to_request_item :: "js_string \<times> request_doc \<Rightarrow> request_item" where
  "to_request_item d =
     \<lparr>fromUid = fromUid (snd d), fromUsername = fromUsername (snd d), toUid = toUid (snd d),
      toUsername = toUsername (snd d), status = status (snd d), createdAt = createdAt (snd d),
      respondedAt = respondedAt (snd d), req_id = fst d\<rparr>"

text \<open>The callback of the requests subscription keeps the pending requests only.\<close>

definition onRequestsSnapshot :: "(js_string \<times> request_doc) list \<Rightarrow> app \<Rightarrow> app" where
  "onRequestsSnapshot docs c =
     c\<lparr>incomingRequests := filter (\<lambda>request. status request = Pending) (map to_request_item docs)\<rparr>"

subsection \<open>Handlers\<close>

text \<open>
  A handler is an \<^verbatim>\<open>async\<close> function. Its model takes the component state, the
  environment and the store, and returns the error its promise is rejected with (if any),
  the component state and the store. The environment is \<open>net\<close>, which says for the
  \<open>k\<close>-th store call of the invocation whether it reaches the store and is permitted,
  and \<open>now\<close>, the store's time at the write.
\<close>

text \<open>
  \<^verbatim>\<open>
  const sendMessage = async () => {
    if (!currentUser || !trimmedName || !activeChatId || !trimmedDraft) return;
    setDraft("");
    await addDoc(collection(db, "chats", activeChatId, "messages"), {
      authorUid: currentUser.uid, authorUsername: trimmedName,
      text: trimmedDraft, createdAt: serverTimestamp() });
  };
  \<close>
  \<open>newId\<close> is the identifier generated for the added document.
\<close>

definition sendMessage ::
  "app \<Rightarrow> (nat \<Rightarrow> bool) \<Rightarrow> nat \<Rightarrow> js_string \<Rightarrow> store \<Rightarrow> js_error option \<times> app \<times> store" where
  "sendMessage c net now newId st =
     (case currentUser c of
        None \<Rightarrow> (None, c, st)
      | Some u \<Rightarrow>
          if trimmedName c = [] \<or> activeChatId c = [] \<or> trimmedDraft c = [] then (None, c, st)
          else
            (let c1 = c\<lparr>draft := []\<rparr> in
             case commit (net 0) now
                    [AddMessage (activeChatId c) newId u (trimmedName c) (trimmedDraft c)
                       ServerTimestamp] st of
               Inl e \<Rightarrow> (Some e, c1, st)
             | Inr st' \<Rightarrow> (None, c1, st')))"

text \<open>
  \<^verbatim>\<open>sendFriendRequest\<close> (lines 167 to 209): the error is cleared; the early returns
  follow in the order of the source; the store is read twice (\<open>net 0\<close>, \<open>net 1\<close>)
  and written once (\<open>net 2\<close>).
\<close>

definition sendFriendRequest ::
  "(js_string \<Rightarrow> js_string) \<Rightarrow> app \<Rightarrow> (nat \<Rightarrow> bool) \<Rightarrow> nat \<Rightarrow> store \<Rightarrow>
     js_error option \<times> app \<times> store" where
  "sendFriendRequest toLowerCase c net now st =
     (let c0 = c\<lparr>friendError := []\<rparr> in
      case currentUser c of
        None \<Rightarrow> (None, c0, st)
      | Some u \<Rightarrow>
          if trimmedName c = [] \<or> normalizedSearchName toLowerCase c = [] then (None, c0, st)
          else if normalizedSearchName toLowerCase c = trimmedName c then
            (None, c0\<lparr>friendError := js ''You cannot add yourself.''\<rparr>, st)
          else if \<not> net 0 then (Some unavailable, c0, st)
          else
            (case usernames st (normalizedSearchName toLowerCase c) of
               None \<Rightarrow> (None, c0\<lparr>friendError := js ''Username not found.''\<rparr>, st)
             | Some targetData \<Rightarrow>
                 (let targetUid = dir_uid targetData in
                  if list_ex (\<lambda>friend. uid friend = targetUid) (friends c) then
                    (None, c0\<lparr>friendError := js ''User is already your friend.''\<rparr>, st)
                  else
                    (let requestId = u @ js ''__'' @ targetUid in
                     if \<not> net 1 then (Some unavailable, c0, st)
                     else if (case friendRequests st requestId of
                                None \<Rightarrow> False
                              | Some existingRequest \<Rightarrow> status existingRequest = Pending) then
                       (None, c0\<lparr>friendError := js ''Friend request already sent.''\<rparr>, st)
                     else
                       (case commit (net 2) now
                               [SetRequest requestId u (trimmedName c) targetUid
                                  (normalizedSearchName toLowerCase c) Pending ServerTimestamp] st of
                          Inl e \<Rightarrow> (Some e, c0, st)
                        | Inr st' \<Rightarrow> (None, c0\<lparr>searchName := []\<rparr>, st'))))))"

text \<open>
  The batch of \<^verbatim>\<open>acceptRequest\<close> (lines 213 to 238), in the order in which the writes
  are added to it.
\<close>

definition acceptBatch :: "request_item \<Rightarrow> fs_write list" where
  "acceptBatch requestItem =
     (let chatId = getChatId (fromUid requestItem) (toUid requestItem) in
      [UpdateRequest (req_id requestItem) Accepted ServerTimestamp,
       SetFriend (fromUid requestItem) (toUid requestItem) (toUsername requestItem)
         ServerTimestamp,
       SetFriend (toUid requestItem) (fromUid requestItem) (fromUsername requestItem)
         ServerTimestamp,
       MergeChat chatId [fromUid requestItem, toUid requestItem] ServerTimestamp])"

text \<open>
  \<^verbatim>\<open>
  const acceptRequest = async (requestItem) => {
    if (!currentUser) return;
    ...
    await batch.commit();
  };
  \<close>
\<close>

definition acceptRequest ::
  "app \<Rightarrow> request_item \<Rightarrow> (nat \<Rightarrow> bool) \<Rightarrow> nat \<Rightarrow> store \<Rightarrow> js_error option \<times> store" where
  "acceptRequest c requestItem net now st =
     (case currentUser c of
        None \<Rightarrow> (None, st)
      | Some u \<Rightarrow>
          (case commit (net 0) now (acceptBatch requestItem) st of
             Inl e \<Rightarrow> (Some e, st)
           | Inr st' \<Rightarrow> (None, st')))"

text \<open>
  \<^verbatim>\<open>
  const rejectRequest = async (requestItem) => {
    await updateDoc(doc(db, "friendRequests", requestItem.id), {
      status: "rejected", respondedAt: serverTimestamp() });
  };
  \<close>
\<close>

definition rejectRequest ::
  "request_item \<Rightarrow> (nat \<Rightarrow> bool) \<Rightarrow> nat \<Rightarrow> store \<Rightarrow> js_error option \<times> store" where
  "rejectRequest requestItem net now st =
     (case commit (net 0) now [UpdateRequest (req_id requestItem) Rejected ServerTimestamp] st of
        Inl e \<Rightarrow> (Some e, st)
      | Inr st' \<Rightarrow> (None, st'))"

text \<open>\<^verbatim>\<open>setAuthError(err?.message || "Authentication failed.")\<close>\<close>

definition caught :: "js_error \<Rightarrow> app \<Rightarrow> app" where
  "caught err c =
     (case err of
        Error m \<Rightarrow> c\<lparr>authError := (if m = [] then js ''Authentication failed.'' else m)\<rparr>)"

text \<open>
  \<^verbatim>\<open>onAuthSubmit\<close> (lines 250 to 304). \<open>authRes\<close> is the answer of the authentication
  service to \<^verbatim>\<open>createUserWithEmailAndPassword\<close> (the new account's uid) or to
  \<^verbatim>\<open>signInWithEmailAndPassword\<close>. In register mode the store is read once (\<open>net 0\<close>)
  and then written twice, each write awaited on its own: the directory entry (\<open>net 1\<close>),
  then the profile (\<open>net 2\<close>). Every error is caught, so the promise is never rejected.
\<close>

definition onAuthSubmit ::
  "(js_string \<Rightarrow> js_string) \<Rightarrow> app \<Rightarrow> (nat \<Rightarrow> bool) \<Rightarrow> js_error + js_string \<Rightarrow> nat \<Rightarrow> store \<Rightarrow>
     app \<times> store" where
  "onAuthSubmit toLowerCase c net authRes now st =
     (let c0 = c\<lparr>authError := []\<rparr> in
      if normalizedUsername toLowerCase c = [] \<or> password c = [] \<or>
         (mode c = Register \<and> trim (email c) = [])
      then (c0\<lparr>authError := js ''Fill all required fields.''\<rparr>, st)
      else if mode c = Register then
        (if \<not> net 0 then (caught unavailable c0, st)
         else
           (case usernames st (normalizedUsername toLowerCase c) of
              Some existing \<Rightarrow> (c0\<lparr>authError := js ''Username is already taken.''\<rparr>, st)
            | None \<Rightarrow>
                (case authRes of
                   Inl e \<Rightarrow> (caught e c0, st)
                 | Inr credentialUid \<Rightarrow>
                     (case commit (net 1) now
                             [SetUsername (normalizedUsername toLowerCase c) credentialUid
                                (trim (email c)) (normalizedUsername toLowerCase c)] st of
                        Inl e \<Rightarrow> (caught e c0, st)
                      | Inr st1 \<Rightarrow>
                          (case commit (net 2) now
                                  [SetUser credentialUid (normalizedUsername toLowerCase c)
                                     (trim (email c)) ServerTimestamp] st1 of
                             Inl e \<Rightarrow> (caught e c0, st1)
                           | Inr st2 \<Rightarrow>
                               (c0\<lparr>username := [], email := [], password := []\<rparr>, st2))))))
      else
        (if \<not> net 0 then (caught unavailable c0, st)
         else
           (case usernames st (normalizedUsername toLowerCase c) of
              None \<Rightarrow> (c0\<lparr>authError := js ''Username not found.''\<rparr>, st)
            | Some usernameDoc \<Rightarrow>
                (case authRes of
                   Inl e \<Rightarrow> (caught e c0, st)
                 | Inr signedIn \<Rightarrow> (c0\<lparr>username := [], password := []\<rparr>, st)))))"

subsection \<open>Example values\<close>

text \<open>
  The state of the component when it is mounted, the empty store, and two accounts,
  alice (uid \<open>uidA\<close>) and bob (uid \<open>uidB\<close>), used to run the model. On strings of
  ASCII code units \<open>toLowerCase\<close> maps the letters A to Z and nothing else, which
  \<open>toLowerCase_ascii\<close> does; the examples use it on such strings only.
\<close>

definition toLowerCase_ascii :: "js_string \<Rightarrow> js_string" where
  "toLowerCase_ascii s = map (\<lambda>u. if 0x41 \<le> u \<and> u \<le> 0x5A then u + 0x20 else u) s"

definition initial_app :: app where
  "initial_app =
     \<lparr>mode = Login, username = [], email = [], password = [], currentUser = None,
      fixedUsername = [], searchName = [], draft = [], messages = [], friends = [],
      incomingRequests = [], activeFriend = None, statusText = js ''Please log in'',
      authError = [], friendError = []\<rparr>"

definition empty_store :: store where
  "empty_store =
     \<lparr>usernames = Map.empty, users = Map.empty, friendsOf = Map.empty,
      friendRequests = Map.empty, chats = Map.empty, chatMessages = (\<lambda>_. [])\<rparr>"

definition alice_app :: app where
  "alice_app = initial_app\<lparr>currentUser := Some (js ''uidA''), fixedUsername := js ''alice''\<rparr>"

definition friend_alice :: friend where
  "friend_alice = \<lparr>uid = js ''uidA'', f_username = js ''alice'', f_addedAt = 1\<rparr>"

definition friend_bob :: friend where
  "friend_bob = \<lparr>uid = js ''uidB'', f_username = js ''bob'', f_addedAt = 1\<rparr>"

definition request_ab :: request_item where
  "request_ab =
     \<lparr>fromUid = js ''uidA'', fromUsername = js ''alice'', toUid = js ''uidB'',
      toUsername = js ''bob'', status = Pending, createdAt = 3, respondedAt = None,
      req_id = js ''uidA__uidB''\<rparr>"

lemmas examples = initial_app_def empty_store_def alice_app_def friend_alice_def friend_bob_def

definition alice_chatting :: app where
  "alice_chatting = alice_app\<lparr>activeFriend := Some friend_bob\<rparr>"

text \<open>
  Environments: a store that every call reaches, and one whose \<open>n\<close>-th call fails. A
  store holding bob's directory entry and one request from alice to bob; a registration
  form; bob's side of the conversation and a channel with two messages.
\<close>

definition online :: "nat \<Rightarrow> bool" where
  "online = (\<lambda>k. True)"

definition fails_at :: "nat \<Rightarrow> nat \<Rightarrow> bool" where
  "fails_at n = (\<lambda>k. k \<noteq> n)"

definition request_doc_ab :: "req_status \<Rightarrow> nat option \<Rightarrow> request_doc" where
  "request_doc_ab s t =
     \<lparr>fromUid = js ''uidA'', fromUsername = js ''alice'', toUid = js ''uidB'',
      toUsername = js ''bob'', status = s, createdAt = 3, respondedAt = t\<rparr>"

definition bob_entry :: username_doc where
  "bob_entry =
     \<lparr>dir_uid = js ''uidB'', dir_email = js ''bob@example.com'', dir_username = js ''bob''\<rparr>"

definition store_ab :: "req_status \<Rightarrow> nat option \<Rightarrow> store" where
  "store_ab s t =
     empty_store
       \<lparr>usernames := [js ''bob'' \<mapsto> bob_entry],
        friendRequests := [js ''uidA__uidB'' \<mapsto> request_doc_ab s t]\<rparr>"

definition register_form :: app where
  "register_form =
     initial_app\<lparr>mode := Register, username := js '' alice '',
       email := js ''alice@example.com'', password := js ''secret''\<rparr>"

lemmas examples2 = online_def fails_at_def request_doc_ab_def store_ab_def register_form_def
  request_ab_def bob_entry_def

definition bob_chatting :: app where
  "bob_chatting =
     initial_app\<lparr>currentUser := Some (js ''uidB''), fixedUsername := js ''bob'',
       activeFriend := Some friend_alice\<rparr>"

definition message_m1 :: message_doc where
  "message_m1 =
     \<lparr>authorUid = js ''uidA'', authorUsername = js ''alice'', msg_text = js ''hi'',
      doc_createdAt = 6\<rparr>"

definition message_m2 :: message_doc where
  "message_m2 =
     \<lparr>authorUid = js ''uidB'', authorUsername = js ''bob'', msg_text = js ''hello'',
      doc_createdAt = 8\<rparr>"

definition pending_m3 :: message_payload where
  "pending_m3 = \<lparr>authorUid = js ''uidA'', authorUsername = js ''alice'', msg_text = js ''bye''\<rparr>"

definition store_chat :: "(js_string \<times> message_doc) list \<Rightarrow> store" where
  "store_chat ms = empty_store\<lparr>chatMessages := (\<lambda>_. [])(js ''uidA__uidB'' := ms)\<rparr>"

section \<open>Properties\<close>

subsection \<open>Strings, the channel identifier and the store\<close>

lemma getChatId_cases:
  "getChatId a b = (if a \<le> b then a @ js ''__'' @ b else b @ js ''__'' @ a)"
  by (simp add: getChatId_def)

lemma getChatId_commute: "getChatId a b = getChatId b a"
  by (auto simp: getChatId_cases)

lemma getChatId_min_max: "getChatId a b = min a b @ js ''__'' @ max a b"
  by (auto simp: getChatId_cases min_def max_def)

lemma getChatId_nonempty: "getChatId a b \<noteq> []"
  by (simp add: getChatId_cases js_def)

lemma trim_empty_iff: "trim s = [] \<longleftrightarrow> (\<forall>u \<in> set s. js_whitespace u)"
proof
  assume "trim s = []"
  then have a: "\<forall>x \<in> set (dropWhile js_whitespace s). js_whitespace x"
    by (simp add: trim_def)
  have "dropWhile js_whitespace s = []"
  proof (rule ccontr)
    assume ne: "dropWhile js_whitespace s \<noteq> []"
    then have "\<not> js_whitespace (hd (dropWhile js_whitespace s))" by (rule hd_dropWhile)
    with a ne show False by (meson hd_in_set)
  qed
  then show "\<forall>u \<in> set s. js_whitespace u" by simp
next
  assume "\<forall>u \<in> set s. js_whitespace u"
  then show "trim s = []" by (auto simp: trim_def dest: set_dropWhileD)
qed



lemma activeChatId_pair:
  "currentUser c = Some u \<Longrightarrow> activeFriend c = Some f \<Longrightarrow> activeChatId c = getChatId u (uid f)"
  by (simp add: activeChatId_def)

lemma commit_AddMessage:
  "i \<notin> fst ` set (chatMessages st c) \<Longrightarrow>
   commit True now [AddMessage c i u n txt ServerTimestamp] st =
     Inr (st\<lparr>chatMessages := (chatMessages st)(c := chatMessages st c @
        [(i, \<lparr>authorUid = u, authorUsername = n, msg_text = txt, doc_createdAt = now\<rparr>)])\<rparr>)"
  by (simp add: commit_def)


lemma commit_unreachable: "commit False now ws st = Inl unavailable"
  by (simp add: commit_def)

lemma commit_accept:
  "friendRequests st (req_id r) = Some q \<Longrightarrow>
   commit True now (acceptBatch r) st =
     Inr (st\<lparr>friendRequests := (friendRequests st)(req_id r \<mapsto>
                 q\<lparr>status := Accepted, respondedAt := Some now\<rparr>),
             friendsOf := (friendsOf st)
               ((fromUid r, toUid r) \<mapsto> \<lparr>friend_username = toUsername r, addedAt = now\<rparr>,
                (toUid r, fromUid r) \<mapsto> \<lparr>friend_username = fromUsername r, addedAt = now\<rparr>),
             chats := (chats st)(getChatId (fromUid r) (toUid r) \<mapsto>
                 \<lparr>members = [fromUid r, toUid r], updatedAt = now\<rparr>)\<rparr>)"
  by (simp add: commit_def acceptBatch_def)

lemma commit_accept_missing:
  "friendRequests st (req_id r) = None \<Longrightarrow> \<exists>e. commit ok now (acceptBatch r) st = Inl e"
  by (simp add: commit_def acceptBatch_def)

lemma commit_reject:
  "friendRequests st i = Some q \<Longrightarrow>
   commit True now [UpdateRequest i s ServerTimestamp] st =
     Inr (st\<lparr>friendRequests := (friendRequests st)(i \<mapsto> q\<lparr>status := s, respondedAt := Some now\<rparr>)\<rparr>)"
  by (simp add: commit_def)

lemma commit_SetRequest:
  "commit True now [SetRequest i f fn tu tn s ServerTimestamp] st =
     Inr (st\<lparr>friendRequests := (friendRequests st)(i \<mapsto>
        \<lparr>fromUid = f, fromUsername = fn, toUid = tu, toUsername = tn,
         status = s, createdAt = now, respondedAt = None\<rparr>)\<rparr>)"
  by (simp add: commit_def)

lemma sendMessage_blank:
  "trimmedDraft c = [] \<Longrightarrow> sendMessage c net now newId st = (None, c, st)"
  by (simp add: sendMessage_def split: option.splits)

lemma sendMessage_run:
  assumes "currentUser c = Some u" "trimmedName c \<noteq> []" "activeChatId c \<noteq> []"
    "trimmedDraft c \<noteq> []"
  shows "sendMessage c net now newId st =
    (case commit (net 0) now
            [AddMessage (activeChatId c) newId u (trimmedName c) (trimmedDraft c)
               ServerTimestamp] st of
       Inl e \<Rightarrow> (Some e, c\<lparr>draft := []\<rparr>, st)
     | Inr st' \<Rightarrow> (None, c\<lparr>draft := []\<rparr>, st'))"
  using assms by (simp add: sendMessage_def Let_def)

lemma onRequestsSnapshot_pending:
  "request \<in> set (incomingRequests (onRequestsSnapshot docs c)) \<Longrightarrow> status request = Pending"
  by (simp add: onRequestsSnapshot_def)

subsection \<open>The channel resolver\<close>

text \<open>
  Claim C2. The channel identifier does not depend on the order of its two arguments: it
  is the smaller uid, the separator \<open>__\<close>, the larger uid. The acceptance batch
  writes the channel document under this identifier, and the channel each of the two
  participants subscribes to (its \<open>activeChatId\<close>) is the same identifier. The resolver
  is a function of its two arguments only.
\<close>

theorem channel_resolver_symmetric:
  "getChatId uidA uidB = getChatId uidB uidA \<and>
   getChatId uidA uidB = min uidA uidB @ js ''__'' @ max uidA uidB \<and>
   MergeChat (getChatId (fromUid r) (toUid r)) [fromUid r, toUid r] ServerTimestamp
     \<in> set (acceptBatch r) \<and>
   activeChatId (cA\<lparr>currentUser := Some uidA, activeFriend := Some (fB\<lparr>uid := uidB\<rparr>)\<rparr>) =
     getChatId uidA uidB \<and>
   activeChatId (cB\<lparr>currentUser := Some uidB, activeFriend := Some (fA\<lparr>uid := uidA\<rparr>)\<rparr>) =
     getChatId uidA uidB"
  by (simp add: getChatId_min_max activeChatId_def acceptBatch_def min.commute max.commute)

theorem channel_resolver_symmetric_witness:
  "getChatId (js ''uidB'') (js ''uidA'') = js ''uidA__uidB'' \<and>
   getChatId (js ''uidA'') (js ''uidB'') = js ''uidA__uidB'' \<and>
   MergeChat (js ''uidA__uidB'') [js ''uidA'', js ''uidB''] ServerTimestamp
     \<in> set (acceptBatch request_ab) \<and>
   activeChatId (alice_app\<lparr>activeFriend := Some friend_bob\<rparr>) = js ''uidA__uidB'' \<and>
   activeChatId (initial_app\<lparr>currentUser := Some (js ''uidB''),
      activeFriend := Some friend_alice\<rparr>) = js ''uidA__uidB''"
  using channel_resolver_symmetric [where uidA = "js ''uidA''" and uidB = "js ''uidB''"
      and r = request_ab and cA = alice_app and fB = friend_bob and cB = initial_app
      and fA = friend_alice]
  by (simp add: examples request_ab_def getChatId_cases acceptBatch_def activeChatId_def js_def)

subsection \<open>Re-selection of the active friend\<close>

text \<open>
  Claim C9. When the friends subscription delivers a list and a friend is selected: the
  selection is kept if the list has an entry with the same uid; otherwise the first entry
  of the list is selected, and none if the list is empty.
\<close>

theorem friend_reselection:
  assumes "activeFriend c = Some prev"
  shows "activeFriend (onFriendsSnapshot nextFriends c) =
           (if \<exists>f \<in> set nextFriends. uid f = uid prev then Some prev
            else (case nextFriends of [] \<Rightarrow> None | x # _ \<Rightarrow> Some x))"
  using assms by (simp add: onFriendsSnapshot_def first_or_null_def list_ex_iff)

theorem friend_reselection_witness:
  "activeFriend (alice_app\<lparr>activeFriend := Some friend_bob\<rparr>) = Some friend_bob \<and>
   activeFriend (onFriendsSnapshot [friend_alice, friend_bob\<lparr>f_username := js ''robert''\<rparr>]
      (alice_app\<lparr>activeFriend := Some friend_bob\<rparr>)) = Some friend_bob \<and>
   activeFriend (onFriendsSnapshot [friend_alice] (alice_app\<lparr>activeFriend := Some friend_bob\<rparr>))
      = Some friend_alice \<and>
   activeFriend (onFriendsSnapshot [] (alice_app\<lparr>activeFriend := Some friend_bob\<rparr>)) = None"
  using friend_reselection [of "alice_app\<lparr>activeFriend := Some friend_bob\<rparr>" friend_bob
      "[friend_alice, friend_bob\<lparr>f_username := js ''robert''\<rparr>]"]
    friend_reselection [of "alice_app\<lparr>activeFriend := Some friend_bob\<rparr>" friend_bob "[friend_alice]"]
    friend_reselection [of "alice_app\<lparr>activeFriend := Some friend_bob\<rparr>" friend_bob "[]"]
  by (simp add: friend_alice_def friend_bob_def js_def)

subsection \<open>Posting a message\<close>

text \<open>
  Claim C6. A draft that is empty or consists of white space only is not posted: the
  handler returns, the draft stays and the store is as before. With a signed-in user, a
  loaded handle, an active channel, a draft that is not blank, a store that is reached
  and a generated identifier that is new in the channel, the channel's messages are the
  former ones followed by one new message that carries the author's uid, the author's
  handle, the trimmed text, and as creation time the store's time \<open>now\<close>: the write
  carries the placeholder for the store's time and no time of the client.
\<close>

theorem post_message:
  "((\<forall>u \<in> set (draft c). js_whitespace u) \<longrightarrow> sendMessage c net now newId st = (None, c, st)) \<and>
   (currentUser c = Some uid' \<and> trimmedName c \<noteq> [] \<and> activeChatId c \<noteq> [] \<and>
      trimmedDraft c \<noteq> [] \<and> net 0 \<and> newId \<notin> fst ` set (chatMessages st (activeChatId c)) \<longrightarrow>
      sendMessage c net now newId st =
        (None, c\<lparr>draft := []\<rparr>,
         st\<lparr>chatMessages := (chatMessages st)(activeChatId c :=
            chatMessages st (activeChatId c) @
            [(newId, \<lparr>authorUid = uid', authorUsername = trimmedName c,
                msg_text = trim (draft c), doc_createdAt = now\<rparr>)])\<rparr>))"
proof (intro conjI impI)
  assume "\<forall>u \<in> set (draft c). js_whitespace u"
  then have "trimmedDraft c = []" by (simp add: trimmedDraft_def trim_empty_iff)
  then show "sendMessage c net now newId st = (None, c, st)" by (rule sendMessage_blank)
next
  assume h: "currentUser c = Some uid' \<and> trimmedName c \<noteq> [] \<and> activeChatId c \<noteq> [] \<and>
      trimmedDraft c \<noteq> [] \<and> net 0 \<and> newId \<notin> fst ` set (chatMessages st (activeChatId c))"
  then have "sendMessage c net now newId st =
    (case commit (net 0) now
            [AddMessage (activeChatId c) newId uid' (trimmedName c) (trimmedDraft c)
               ServerTimestamp] st of
       Inl e \<Rightarrow> (Some e, c\<lparr>draft := []\<rparr>, st)
     | Inr st' \<Rightarrow> (None, c\<lparr>draft := []\<rparr>, st'))"
    by (simp add: sendMessage_run)
  with h show "sendMessage c net now newId st =
        (None, c\<lparr>draft := []\<rparr>,
         st\<lparr>chatMessages := (chatMessages st)(activeChatId c :=
            chatMessages st (activeChatId c) @
            [(newId, \<lparr>authorUid = uid', authorUsername = trimmedName c,
                msg_text = trim (draft c), doc_createdAt = now\<rparr>)])\<rparr>)"
    by (simp add: commit_AddMessage trimmedDraft_def)
qed

theorem post_message_witness:
  "list_all js_whitespace (draft (alice_chatting\<lparr>draft := [0x20, 0xA0, 0x2003, 0x09]\<rparr>)) \<and>
   sendMessage (alice_chatting\<lparr>draft := [0x20, 0xA0, 0x2003, 0x09]\<rparr>) online 7 (js ''m1'')
       empty_store =
     (None, alice_chatting\<lparr>draft := [0x20, 0xA0, 0x2003, 0x09]\<rparr>, empty_store) \<and>
   sendMessage (alice_chatting\<lparr>draft := 0xA0 # js '' hi ''\<rparr>) online 7 (js ''m1'') empty_store =
     (None, alice_chatting,
      empty_store\<lparr>chatMessages := (\<lambda>_. [])(js ''uidA__uidB'' :=
        [(js ''m1'', \<lparr>authorUid = js ''uidA'', authorUsername = js ''alice'',
            msg_text = js ''hi'', doc_createdAt = 7\<rparr>)])\<rparr>)"
proof -
  let ?blank = "alice_chatting\<lparr>draft := [0x20, 0xA0, 0x2003, 0x09]\<rparr>"
  let ?c = "alice_chatting\<lparr>draft := 0xA0 # js '' hi ''\<rparr>"
  have b: "\<forall>u \<in> set (draft ?blank). js_whitespace u" by (simp add: js_whitespace_def)
  have h1: "currentUser ?c = Some (js ''uidA'')" by (simp add: alice_chatting_def examples)
  have h2: "trimmedName ?c = js ''alice''"
    by (simp add: alice_chatting_def examples trimmedName_def trim_def js_whitespace_def js_def)
  have h3: "activeChatId ?c = js ''uidA__uidB''"
    by (simp add: alice_chatting_def examples activeChatId_def getChatId_cases js_def)
  have h4: "trimmedDraft ?c = js ''hi''"
    by (simp add: trimmedDraft_def trim_def js_whitespace_def js_def)
  have h5: "online 0" by (simp add: online_def)
  have h6: "js ''m1'' \<notin> fst ` set (chatMessages empty_store (activeChatId ?c))"
    by (simp add: empty_store_def)
  have n2: "trimmedName ?c \<noteq> []" unfolding h2 by (simp add: js_def)
  have n3: "activeChatId ?c \<noteq> []" unfolding h3 by (simp add: js_def)
  have n4: "trimmedDraft ?c \<noteq> []" unfolding h4 by (simp add: js_def)
  have p1: "sendMessage ?blank online 7 (js ''m1'') empty_store = (None, ?blank, empty_store)"
    using post_message [of ?blank online 7 "js ''m1''" empty_store "js ''uidA''",
        THEN conjunct1, THEN mp, OF b] .
  have p2: "sendMessage ?c online 7 (js ''m1'') empty_store =
        (None, ?c\<lparr>draft := []\<rparr>,
         empty_store\<lparr>chatMessages := (chatMessages empty_store)(activeChatId ?c :=
            chatMessages empty_store (activeChatId ?c) @
            [(js ''m1'', \<lparr>authorUid = js ''uidA'', authorUsername = trimmedName ?c,
                msg_text = trim (draft ?c), doc_createdAt = 7\<rparr>)])\<rparr>)"
    using post_message [of ?c online 7 "js ''m1''" empty_store "js ''uidA''",
        THEN conjunct2, THEN mp] h1 n2 n3 n4 h5 h6 by blast
  have d: "?c\<lparr>draft := []\<rparr> = alice_chatting" by (simp add: alice_chatting_def examples)
  have t: "trim (draft ?c) = js ''hi''" using h4 by (simp add: trimmedDraft_def)
  have l: "list_all js_whitespace (draft ?blank)" using b by (simp add: list_all_iff)
  show ?thesis
    unfolding p1 p2 d t h2 h3 using l by (simp add: empty_store_def)
qed



subsection \<open>Sending a friend request\<close>

text \<open>
  Claim C5. When the searched name, trimmed and lowercased, is the sender's own handle,
  \<open>sendFriendRequest\<close> leaves the store as it is and its promise is not rejected; with a
  signed-in user whose handle is loaded, the error shown is that one cannot add oneself.
\<close>

theorem self_request_rejected:
  assumes "normalizedSearchName toLowerCase c = trimmedName c"
  shows "snd (snd (sendFriendRequest toLowerCase c net now st)) = st \<and>
         fst (sendFriendRequest toLowerCase c net now st) = None \<and>
         (currentUser c \<noteq> None \<and> trimmedName c \<noteq> [] \<longrightarrow>
            sendFriendRequest toLowerCase c net now st =
              (None, c\<lparr>friendError := js ''You cannot add yourself.''\<rparr>, st))"
  using assms by (auto simp: sendFriendRequest_def Let_def split: option.splits)

theorem self_request_rejected_witness:
  "normalizedSearchName toLowerCase_ascii (alice_app\<lparr>searchName := js '' Alice ''\<rparr>) =
     trimmedName (alice_app\<lparr>searchName := js '' Alice ''\<rparr>) \<and>
   sendFriendRequest toLowerCase_ascii (alice_app\<lparr>searchName := js '' Alice ''\<rparr>) online 7
       empty_store =
     (None,
      alice_app\<lparr>searchName := js '' Alice '', friendError := js ''You cannot add yourself.''\<rparr>,
      empty_store)"
proof -
  let ?c = "alice_app\<lparr>searchName := js '' Alice ''\<rparr>"
  have s: "normalizedSearchName toLowerCase_ascii ?c = js ''alice''"
    by (simp add: normalizedSearchName_def trim_def js_whitespace_def js_def
        toLowerCase_ascii_def)
  have t: "trimmedName ?c = js ''alice''"
    by (simp add: examples trimmedName_def trim_def js_whitespace_def js_def)
  have h: "normalizedSearchName toLowerCase_ascii ?c = trimmedName ?c" by (simp only: s t)
  have u: "currentUser ?c \<noteq> None" by (simp add: examples)
  have n: "trimmedName ?c \<noteq> []" unfolding t by (simp add: js_def)
  show ?thesis
    using h u n self_request_rejected [OF h, of online 7 empty_store]
    by simp
qed

text \<open>
  Claim C4. With a signed-in sender whose handle is loaded, a target that is found in the
  directory, is not the sender and is not yet a friend, and an existing request under the
  identifier \<open>fromUid __ toUid\<close>: if that request is pending, the send is refused with
  the message that a request was already sent and the store is as before, so the request
  stays the single record under that identifier; if it is rejected, the send goes through
  and the record under the same identifier is replaced by a fresh pending request.
\<close>

theorem send_pending_blocks_rejected_resends:
  assumes "currentUser c = Some u" and "trimmedName c \<noteq> []"
    and "normalizedSearchName toLowerCase c \<noteq> []"
    and "normalizedSearchName toLowerCase c \<noteq> trimmedName c" and "net 0"
    and "usernames st (normalizedSearchName toLowerCase c) = Some target"
    and "\<not> list_ex (\<lambda>friend. uid friend = dir_uid target) (friends c)" and "net 1"
    and "friendRequests st (u @ js ''__'' @ dir_uid target) = Some existing"
  shows "(status existing = Pending \<longrightarrow>
            sendFriendRequest toLowerCase c net now st =
              (None, c\<lparr>friendError := js ''Friend request already sent.''\<rparr>, st)) \<and>
         (status existing = Rejected \<and> net 2 \<longrightarrow>
            sendFriendRequest toLowerCase c net now st =
              (None, c\<lparr>friendError := [], searchName := []\<rparr>,
               st\<lparr>friendRequests := (friendRequests st)(u @ js ''__'' @ dir_uid target \<mapsto>
                  \<lparr>fromUid = u, fromUsername = trimmedName c, toUid = dir_uid target,
                   toUsername = normalizedSearchName toLowerCase c, status = Pending,
                   createdAt = now, respondedAt = None\<rparr>)\<rparr>))"
  using assms by (simp add: sendFriendRequest_def Let_def commit_SetRequest)

theorem send_pending_blocks_rejected_resends_witness:
  "sendFriendRequest toLowerCase_ascii (alice_app\<lparr>searchName := js ''bob''\<rparr>) online 9
       (store_ab Pending None) =
     (None,
      alice_app\<lparr>searchName := js ''bob'', friendError := js ''Friend request already sent.''\<rparr>,
      store_ab Pending None) \<and>
   sendFriendRequest toLowerCase_ascii (alice_app\<lparr>searchName := js ''bob''\<rparr>) online 9
       (store_ab Rejected (Some 5)) =
     (None, alice_app, store_ab Pending None\<lparr>friendRequests :=
        [js ''uidA__uidB'' \<mapsto> (request_doc_ab Pending None)\<lparr>createdAt := 9\<rparr>]\<rparr>)"
proof -
  let ?c = "alice_app\<lparr>searchName := js ''bob''\<rparr>"
  have h1: "currentUser ?c = Some (js ''uidA'')" by (simp add: examples)
  have t: "trimmedName ?c = js ''alice''"
    by (simp add: examples trimmedName_def trim_def js_whitespace_def js_def)
  have n: "normalizedSearchName toLowerCase_ascii ?c = js ''bob''"
    by (simp add: normalizedSearchName_def trim_def js_whitespace_def js_def
        toLowerCase_ascii_def)
  have h2: "trimmedName ?c \<noteq> []" unfolding t by (simp add: js_def)
  have h3: "normalizedSearchName toLowerCase_ascii ?c \<noteq> []" unfolding n by (simp add: js_def)
  have h4: "normalizedSearchName toLowerCase_ascii ?c \<noteq> trimmedName ?c"
    unfolding n t by (simp add: js_def)
  have h5: "online 0" and h8: "online 1" and h10: "online 2" by (simp_all add: online_def)
  have h6: "usernames (store_ab s r) (normalizedSearchName toLowerCase_ascii ?c) = Some bob_entry"
    for s r
    unfolding n by (simp add: store_ab_def empty_store_def)
  have h7: "\<not> list_ex (\<lambda>friend. uid friend = dir_uid bob_entry) (friends ?c)"
    by (simp add: examples)
  have h9: "friendRequests (store_ab s r) (js ''uidA'' @ js ''__'' @ dir_uid bob_entry) =
      Some (request_doc_ab s r)" for s r
    by (simp add: store_ab_def empty_store_def bob_entry_def js_def)
  have c: "?c\<lparr>friendError := [], searchName := []\<rparr> = alice_app" by (simp add: examples)
  have r: "\<lparr>fromUid = js ''uidA'', fromUsername = js ''alice'', toUid = dir_uid bob_entry,
              toUsername = js ''bob'', status = Pending, createdAt = 9, respondedAt = None\<rparr> =
            (request_doc_ab Pending None)\<lparr>createdAt := 9\<rparr>"
    by (simp add: request_doc_ab_def bob_entry_def)
  show ?thesis
    using send_pending_blocks_rejected_resends [OF h1 h2 h3 h4 h5 h6 h7 h8 h9, of Pending None 9]
      send_pending_blocks_rejected_resends [OF h1 h2 h3 h4 h5 h6 h7 h8 h9, of Rejected "Some 5" 9]
      h10
    by (simp add: c r t n request_doc_ab_def) (simp add: store_ab_def bob_entry_def js_def)
qed

subsection \<open>Accepting and rejecting a request\<close>

text \<open>
  Claim C1. With a signed-in user, the batch of \<open>acceptRequest\<close> consists of exactly
  four writes: the request's status set to accepted with the response time, the
  friendship entry on the sender's account, the friendship entry on the recipient's
  account, and the merge of the channel document of the pair. The commit has two outcomes
  only: all four are applied, or the promise is rejected and the store is as before.
\<close>

theorem accept_all_or_nothing:
  assumes "currentUser c = Some u"
  shows "acceptBatch r =
           [UpdateRequest (req_id r) Accepted ServerTimestamp,
            SetFriend (fromUid r) (toUid r) (toUsername r) ServerTimestamp,
            SetFriend (toUid r) (fromUid r) (fromUsername r) ServerTimestamp,
            MergeChat (getChatId (fromUid r) (toUid r)) [fromUid r, toUid r] ServerTimestamp] \<and>
         (net 0 \<and> friendRequests st (req_id r) = Some q \<longrightarrow>
            acceptRequest c r net now st =
              (None,
               st\<lparr>friendRequests := (friendRequests st)(req_id r \<mapsto>
                     q\<lparr>status := Accepted, respondedAt := Some now\<rparr>),
                   friendsOf := (friendsOf st)
                     ((fromUid r, toUid r) \<mapsto> \<lparr>friend_username = toUsername r, addedAt = now\<rparr>,
                      (toUid r, fromUid r) \<mapsto> \<lparr>friend_username = fromUsername r, addedAt = now\<rparr>),
                   chats := (chats st)(getChatId (fromUid r) (toUid r) \<mapsto>
                     \<lparr>members = [fromUid r, toUid r], updatedAt = now\<rparr>)\<rparr>)) \<and>
         (\<not> net 0 \<or> friendRequests st (req_id r) = None \<longrightarrow>
            fst (acceptRequest c r net now st) \<noteq> None \<and> snd (acceptRequest c r net now st) = st)"
proof (intro conjI impI)
  show "acceptBatch r =
           [UpdateRequest (req_id r) Accepted ServerTimestamp,
            SetFriend (fromUid r) (toUid r) (toUsername r) ServerTimestamp,
            SetFriend (toUid r) (fromUid r) (fromUsername r) ServerTimestamp,
            MergeChat (getChatId (fromUid r) (toUid r)) [fromUid r, toUid r] ServerTimestamp]"
    by (simp add: acceptBatch_def)
next
  assume "net 0 \<and> friendRequests st (req_id r) = Some q"
  then show "acceptRequest c r net now st =
              (None,
               st\<lparr>friendRequests := (friendRequests st)(req_id r \<mapsto>
                     q\<lparr>status := Accepted, respondedAt := Some now\<rparr>),
                   friendsOf := (friendsOf st)
                     ((fromUid r, toUid r) \<mapsto> \<lparr>friend_username = toUsername r, addedAt = now\<rparr>,
                      (toUid r, fromUid r) \<mapsto> \<lparr>friend_username = fromUsername r, addedAt = now\<rparr>),
                   chats := (chats st)(getChatId (fromUid r) (toUid r) \<mapsto>
                     \<lparr>members = [fromUid r, toUid r], updatedAt = now\<rparr>)\<rparr>)"
    using assms by (simp add: acceptRequest_def commit_accept)
next
  assume h: "\<not> net 0 \<or> friendRequests st (req_id r) = None"
  have "\<exists>e. commit (net 0) now (acceptBatch r) st = Inl e"
    using h commit_accept_missing [of st r "net 0" now] by (auto simp: commit_unreachable)
  then obtain e where e: "commit (net 0) now (acceptBatch r) st = Inl e" ..
  show "fst (acceptRequest c r net now st) \<noteq> None"
    using assms by (simp add: acceptRequest_def e)
  show "snd (acceptRequest c r net now st) = st"
    using assms by (simp add: acceptRequest_def e)
qed

theorem accept_all_or_nothing_witness:
  "currentUser (initial_app\<lparr>currentUser := Some (js ''uidB'')\<rparr>) = Some (js ''uidB'') \<and>
   online 0 \<and> friendRequests (store_ab Pending None) (req_id request_ab) =
     Some (request_doc_ab Pending None) \<and>
   acceptRequest (initial_app\<lparr>currentUser := Some (js ''uidB'')\<rparr>) request_ab online 9
       (store_ab Pending None) =
     (None, (store_ab Accepted (Some 9))
        \<lparr>friendsOf := [(js ''uidA'', js ''uidB'') \<mapsto> \<lparr>friend_username = js ''bob'', addedAt = 9\<rparr>,
                       (js ''uidB'', js ''uidA'') \<mapsto> \<lparr>friend_username = js ''alice'', addedAt = 9\<rparr>],
         chats := [js ''uidA__uidB'' \<mapsto> \<lparr>members = [js ''uidA'', js ''uidB''], updatedAt = 9\<rparr>]\<rparr>) \<and>
   \<not> fails_at 0 0 \<and>
   fst (acceptRequest (initial_app\<lparr>currentUser := Some (js ''uidB'')\<rparr>) request_ab (fails_at 0) 9
       (store_ab Pending None)) \<noteq> None \<and>
   snd (acceptRequest (initial_app\<lparr>currentUser := Some (js ''uidB'')\<rparr>) request_ab (fails_at 0) 9
       (store_ab Pending None)) = store_ab Pending None"
proof -
  let ?c = "initial_app\<lparr>currentUser := Some (js ''uidB'')\<rparr>"
  have u: "currentUser ?c = Some (js ''uidB'')" by simp
  have q: "friendRequests (store_ab Pending None) (req_id request_ab) =
     Some (request_doc_ab Pending None)"
    by (simp add: examples examples2)
  show ?thesis
    using u q
      accept_all_or_nothing [OF u, of request_ab online "store_ab Pending None"
        "request_doc_ab Pending None" 9]
      accept_all_or_nothing [OF u, of request_ab "fails_at 0" "store_ab Pending None"
        "request_doc_ab Pending None" 9]
    by (simp add: examples examples2 getChatId_cases js_def)
qed


text \<open>
  Claim C7, as amended. The respond operations never take a request back to pending: a
  reject that reaches the store sets the status of the stored request to rejected and
  changes nothing else than the response time, an accept that reaches the store leaves the
  status accepted, and a respond that fails leaves the store as it was. Rejecting a request
  that is already rejected keeps every field but the response time. What is not true is
  that a terminal status is set only once: neither operation looks at the stored status.
\<close>

theorem respond_never_back_to_pending:
  assumes "friendRequests st (req_id r) = Some q" and "currentUser c = Some u"
  shows "(net 0 \<longrightarrow>
            snd (rejectRequest r net now st) =
              st\<lparr>friendRequests := (friendRequests st)(req_id r \<mapsto>
                    q\<lparr>status := Rejected, respondedAt := Some now\<rparr>)\<rparr> \<and>
            map_option status (friendRequests (snd (acceptRequest c r net now st)) (req_id r)) =
              Some Accepted) \<and>
         (\<not> net 0 \<longrightarrow>
            snd (rejectRequest r net now st) = st \<and> snd (acceptRequest c r net now st) = st) \<and>
         (status q \<noteq> Pending \<longrightarrow>
            map_option status (friendRequests (snd (rejectRequest r net now st)) (req_id r)) \<noteq>
              Some Pending \<and>
            map_option status (friendRequests (snd (acceptRequest c r net now st)) (req_id r)) \<noteq>
              Some Pending) \<and>
         (status q = Rejected \<longrightarrow>
            (\<exists>t. friendRequests (snd (rejectRequest r net now st)) (req_id r) =
                    Some (q\<lparr>respondedAt := t\<rparr>)))"
proof -
  have rej: "rejectRequest r net now st =
      (if net 0 then (None, st\<lparr>friendRequests := (friendRequests st)(req_id r \<mapsto>
                    q\<lparr>status := Rejected, respondedAt := Some now\<rparr>)\<rparr>)
       else (Some unavailable, st))"
    using assms(1) by (simp add: rejectRequest_def commit_reject commit_unreachable)
  have acc: "acceptRequest c r net now st =
      (if net 0 then (None, st\<lparr>friendRequests := (friendRequests st)(req_id r \<mapsto>
                     q\<lparr>status := Accepted, respondedAt := Some now\<rparr>),
                   friendsOf := (friendsOf st)
                     ((fromUid r, toUid r) \<mapsto> \<lparr>friend_username = toUsername r, addedAt = now\<rparr>,
                      (toUid r, fromUid r) \<mapsto> \<lparr>friend_username = fromUsername r, addedAt = now\<rparr>),
                   chats := (chats st)(getChatId (fromUid r) (toUid r) \<mapsto>
                     \<lparr>members = [fromUid r, toUid r], updatedAt = now\<rparr>)\<rparr>)
       else (Some unavailable, st))"
    using assms by (simp add: acceptRequest_def commit_accept commit_unreachable)
  have a: "net 0 \<longrightarrow>
            snd (rejectRequest r net now st) =
              st\<lparr>friendRequests := (friendRequests st)(req_id r \<mapsto>
                    q\<lparr>status := Rejected, respondedAt := Some now\<rparr>)\<rparr> \<and>
            map_option status (friendRequests (snd (acceptRequest c r net now st)) (req_id r)) =
              Some Accepted"
    by (simp add: rej acc)
  have b: "\<not> net 0 \<longrightarrow>
            snd (rejectRequest r net now st) = st \<and> snd (acceptRequest c r net now st) = st"
    by (simp add: rej acc)
  have d: "status q \<noteq> Pending \<longrightarrow>
            map_option status (friendRequests (snd (rejectRequest r net now st)) (req_id r)) \<noteq>
              Some Pending \<and>
            map_option status (friendRequests (snd (acceptRequest c r net now st)) (req_id r)) \<noteq>
              Some Pending"
    using assms(1) by (simp add: rej acc)
  have e: "status q = Rejected \<longrightarrow>
            (\<exists>t. friendRequests (snd (rejectRequest r net now st)) (req_id r) =
                    Some (q\<lparr>respondedAt := t\<rparr>))"
  proof
    assume s: "status q = Rejected"
    show "\<exists>t. friendRequests (snd (rejectRequest r net now st)) (req_id r) =
                    Some (q\<lparr>respondedAt := t\<rparr>)"
    proof (cases "net 0")
      case True
      have "q\<lparr>status := Rejected, respondedAt := Some now\<rparr> = q\<lparr>respondedAt := Some now\<rparr>"
        using s by simp
      then show ?thesis using True by (auto simp: rej)
    next
      case False
      have "q\<lparr>respondedAt := respondedAt q\<rparr> = q" by simp
      then show ?thesis using False assms(1) by (auto simp: rej intro: exI [of _ "respondedAt q"])
    qed
  qed
  from a b d e show ?thesis by blast
qed

theorem respond_never_back_to_pending_witness:
  "friendRequests (store_ab Rejected (Some 5)) (req_id request_ab) =
     Some (request_doc_ab Rejected (Some 5)) \<and>
   currentUser (initial_app\<lparr>currentUser := Some (js ''uidB'')\<rparr>) = Some (js ''uidB'') \<and>
   online 0 \<and> status (request_doc_ab Rejected (Some 5)) = Rejected \<and>
   snd (rejectRequest request_ab online 9 (store_ab Rejected (Some 5))) =
     store_ab Rejected (Some 9) \<and>
   \<not> fails_at 0 0 \<and>
   snd (rejectRequest request_ab (fails_at 0) 9 (store_ab Rejected (Some 5))) =
     store_ab Rejected (Some 5)"
proof -
  let ?c = "initial_app\<lparr>currentUser := Some (js ''uidB'')\<rparr>"
  have u: "currentUser ?c = Some (js ''uidB'')" by simp
  have q: "friendRequests (store_ab Rejected (Some 5)) (req_id request_ab) =
     Some (request_doc_ab Rejected (Some 5))"
    by (simp add: examples examples2)
  show ?thesis
    using u q
      respond_never_back_to_pending [OF q u, of online 9]
      respond_never_back_to_pending [OF q u, of "fails_at 0" 9]
    by (simp add: examples examples2)
qed


text \<open>
  A request that the store holds as accepted, rejected through an item the recipient's
  list still shows: its status becomes rejected. A request that the store holds as
  rejected, accepted through such an item: its status becomes accepted.
\<close>

theorem respond_overwrites_terminal_counterexample:
  "map_option status (friendRequests (store_ab Accepted (Some 5)) (req_id request_ab)) =
     Some Accepted \<and>
   map_option status
     (friendRequests (snd (rejectRequest request_ab online 9 (store_ab Accepted (Some 5))))
        (req_id request_ab)) = Some Rejected \<and>
   map_option status (friendRequests (store_ab Rejected (Some 5)) (req_id request_ab)) =
     Some Rejected \<and>
   map_option status
     (friendRequests (snd (acceptRequest bob_chatting request_ab online 9
        (store_ab Rejected (Some 5)))) (req_id request_ab)) = Some Accepted"
  by (simp add: rejectRequest_def acceptRequest_def acceptBatch_def commit_def bob_chatting_def
      examples examples2)


subsection \<open>Registration\<close>

lemma commit_SetUsername:
  "commit True now [SetUsername h u e n] st =
     Inr (st\<lparr>usernames := (usernames st)(h \<mapsto> \<lparr>dir_uid = u, dir_email = e, dir_username = n\<rparr>)\<rparr>)"
  by (simp add: commit_def)

lemma commit_SetUser:
  "commit True now [SetUser u n e ServerTimestamp] st =
     Inr (st\<lparr>users := (users st)(u \<mapsto>
        \<lparr>profile_username = n, profile_email = e, profile_createdAt = now\<rparr>)\<rparr>)"
  by (simp add: commit_def)

lemma onAuthSubmit_users_changed:
  "users (snd (onAuthSubmit toLowerCase c net authRes now st)) \<noteq> users st \<Longrightarrow>
   usernames (snd (onAuthSubmit toLowerCase c net authRes now st))
     (normalizedUsername toLowerCase c) \<noteq> None"
  by (cases "net 1"; cases "net 2")
    (auto simp: onAuthSubmit_def Let_def commit_SetUsername commit_SetUser commit_unreachable
      split: if_splits option.splits sum.splits)

lemma register_form_normalized:
  "normalizedUsername toLowerCase_ascii register_form = js ''alice''"
  by (simp add: register_form_def initial_app_def normalizedUsername_def trim_def
      js_whitespace_def toLowerCase_ascii_def js_def)

lemma register_form_email: "trim (email register_form) = js ''alice@example.com''"
  by (simp add: register_form_def initial_app_def trim_def js_whitespace_def js_def)

lemma register_profile_write_fails:
  assumes "mode c = Register" and "normalizedUsername toLowerCase c \<noteq> []" and "password c \<noteq> []"
    and "trim (email c) \<noteq> []" and "net 0"
    and "usernames st (normalizedUsername toLowerCase c) = None"
    and "net 1" and "\<not> net 2"
  shows "snd (onAuthSubmit toLowerCase c net (Inr newUid) now st) =
           st\<lparr>usernames := (usernames st)(normalizedUsername toLowerCase c \<mapsto>
                 \<lparr>dir_uid = newUid, dir_email = trim (email c),
                  dir_username = normalizedUsername toLowerCase c\<rparr>)\<rparr>"
  using assms by (simp add: onAuthSubmit_def commit_SetUsername commit_unreachable)

text \<open>
  Claim C3, as amended. Registering with a filled form, a reachable directory and a
  handle that is one path segment (it holds no slash, so that the document reference
  names the document of the handle): if the normalized handle has a directory entry, the
  submit ends with the message that the username is taken and the store is as before.
  Otherwise the directory entry and the profile are written by two writes, each awaited
  on its own, the directory entry first: when both succeed both documents exist, and the
  profiles never change unless the directory entry of the handle is there.
\<close>

theorem register_handle_taken_or_two_writes:
  assumes "mode c = Register" and "normalizedUsername toLowerCase c \<noteq> []"
    and "0x2F \<notin> set (normalizedUsername toLowerCase c)" and "password c \<noteq> []"
    and "trim (email c) \<noteq> []" and "net 0"
  shows "(usernames st (normalizedUsername toLowerCase c) = Some existing \<longrightarrow>
            onAuthSubmit toLowerCase c net authRes now st =
              (c\<lparr>authError := js ''Username is already taken.''\<rparr>, st)) \<and>
         (usernames st (normalizedUsername toLowerCase c) = None \<and> authRes = Inr newUid \<and>
            net 1 \<and> net 2 \<longrightarrow>
            onAuthSubmit toLowerCase c net authRes now st =
              (c\<lparr>authError := [], username := [], email := [], password := []\<rparr>,
               st\<lparr>usernames := (usernames st)(normalizedUsername toLowerCase c \<mapsto>
                     \<lparr>dir_uid = newUid, dir_email = trim (email c),
                      dir_username = normalizedUsername toLowerCase c\<rparr>),
                   users := (users st)(newUid \<mapsto>
                     \<lparr>profile_username = normalizedUsername toLowerCase c,
                      profile_email = trim (email c), profile_createdAt = now\<rparr>)\<rparr>)) \<and>
         (users (snd (onAuthSubmit toLowerCase c net authRes now st)) \<noteq> users st \<longrightarrow>
            usernames (snd (onAuthSubmit toLowerCase c net authRes now st))
              (normalizedUsername toLowerCase c) \<noteq> None)"
proof (intro conjI impI)
  assume "usernames st (normalizedUsername toLowerCase c) = Some existing"
  then show "onAuthSubmit toLowerCase c net authRes now st =
              (c\<lparr>authError := js ''Username is already taken.''\<rparr>, st)"
    using assms by (simp add: onAuthSubmit_def)
next
  assume "usernames st (normalizedUsername toLowerCase c) = None \<and> authRes = Inr newUid \<and>
            net 1 \<and> net 2"
  then show "onAuthSubmit toLowerCase c net authRes now st =
              (c\<lparr>authError := [], username := [], email := [], password := []\<rparr>,
               st\<lparr>usernames := (usernames st)(normalizedUsername toLowerCase c \<mapsto>
                     \<lparr>dir_uid = newUid, dir_email = trim (email c),
                      dir_username = normalizedUsername toLowerCase c\<rparr>),
                   users := (users st)(newUid \<mapsto>
                     \<lparr>profile_username = normalizedUsername toLowerCase c,
                      profile_email = trim (email c), profile_createdAt = now\<rparr>)\<rparr>)"
    using assms by (simp add: onAuthSubmit_def commit_SetUsername commit_SetUser)
next
  assume "users (snd (onAuthSubmit toLowerCase c net authRes now st)) \<noteq> users st"
  then show "usernames (snd (onAuthSubmit toLowerCase c net authRes now st))
      (normalizedUsername toLowerCase c) \<noteq> None"
    by (rule onAuthSubmit_users_changed)
qed

theorem register_handle_taken_or_two_writes_witness:
  "mode register_form = Register \<and>
   normalizedUsername toLowerCase_ascii register_form = js ''alice'' \<and>
   password register_form = js ''secret'' \<and>
   trim (email register_form) = js ''alice@example.com'' \<and>
   online 0 \<and> online 1 \<and> online 2 \<and>
   usernames empty_store (js ''alice'') = None \<and>
   snd (onAuthSubmit toLowerCase_ascii register_form online (Inr (js ''uidA'')) 5 empty_store) =
     empty_store
       \<lparr>usernames := [js ''alice'' \<mapsto> \<lparr>dir_uid = js ''uidA'',
                          dir_email = js ''alice@example.com'', dir_username = js ''alice''\<rparr>],
        users := [js ''uidA'' \<mapsto> \<lparr>profile_username = js ''alice'',
                     profile_email = js ''alice@example.com'', profile_createdAt = 5\<rparr>]\<rparr> \<and>
   normalizedUsername toLowerCase_ascii (register_form\<lparr>username := js ''Bob'' @ [0xA0]\<rparr>) =
     js ''bob'' \<and>
   usernames (store_ab Pending None) (js ''bob'') = Some bob_entry \<and>
   onAuthSubmit toLowerCase_ascii (register_form\<lparr>username := js ''Bob'' @ [0xA0]\<rparr>) online
       (Inr (js ''uidC'')) 5 (store_ab Pending None) =
     (register_form\<lparr>username := js ''Bob'' @ [0xA0],
        authError := js ''Username is already taken.''\<rparr>, store_ab Pending None)"
proof -
  have m: "mode register_form = Register" by (simp add: register_form_def)
  have p: "password register_form = js ''secret''" by (simp add: register_form_def)
  have n1: "normalizedUsername toLowerCase_ascii register_form \<noteq> []"
    unfolding register_form_normalized by (simp add: js_def)
  have s1: "0x2F \<notin> set (normalizedUsername toLowerCase_ascii register_form)"
    unfolding register_form_normalized by (simp add: js_def)
  have n2: "password register_form \<noteq> []" unfolding p by (simp add: js_def)
  have n3: "trim (email register_form) \<noteq> []" unfolding register_form_email by (simp add: js_def)
  have o: "online 0" "online 1" "online 2" by (simp_all add: online_def)
  let ?b = "register_form\<lparr>username := js ''Bob'' @ [0xA0]\<rparr>"
  have bn: "normalizedUsername toLowerCase_ascii ?b = js ''bob''"
    by (simp add: normalizedUsername_def trim_def js_whitespace_def toLowerCase_ascii_def js_def)
  have b1: "mode ?b = Register" by (simp add: register_form_def)
  have b2: "normalizedUsername toLowerCase_ascii ?b \<noteq> []" unfolding bn by (simp add: js_def)
  have s2: "0x2F \<notin> set (normalizedUsername toLowerCase_ascii ?b)"
    unfolding bn by (simp add: js_def)
  have b3: "password ?b \<noteq> []" using n2 by simp
  have b4: "trim (email ?b) \<noteq> []" using n3 by simp
  have e: "usernames empty_store (js ''alice'') = None" by (simp add: empty_store_def)
  have t: "usernames (store_ab Pending None) (js ''bob'') = Some bob_entry"
    by (simp add: store_ab_def empty_store_def)
  have r1: "snd (onAuthSubmit toLowerCase_ascii register_form online (Inr (js ''uidA'')) 5
      empty_store) =
     empty_store
       \<lparr>usernames := [js ''alice'' \<mapsto> \<lparr>dir_uid = js ''uidA'',
                          dir_email = js ''alice@example.com'', dir_username = js ''alice''\<rparr>],
        users := [js ''uidA'' \<mapsto> \<lparr>profile_username = js ''alice'',
                     profile_email = js ''alice@example.com'', profile_createdAt = 5\<rparr>]\<rparr>"
    using register_handle_taken_or_two_writes [where c = register_form and net = online
        and toLowerCase = toLowerCase_ascii
        and st = empty_store and authRes = "Inr (js ''uidA'')" and newUid = "js ''uidA''"
        and now = 5 and existing = bob_entry, OF m n1 s1 n2 n3 o(1)] e o
    by (simp add: register_form_normalized register_form_email empty_store_def)
  have r2: "onAuthSubmit toLowerCase_ascii ?b online (Inr (js ''uidC'')) 5 (store_ab Pending None) =
     (?b\<lparr>authError := js ''Username is already taken.''\<rparr>, store_ab Pending None)"
    using register_handle_taken_or_two_writes [where c = "?b" and net = online
        and toLowerCase = toLowerCase_ascii
        and st = "store_ab Pending None" and authRes = "Inr (js ''uidC'')"
        and newUid = "js ''uidC''" and now = 5 and existing = bob_entry,
        OF b1 b2 s2 b3 b4 o(1)] t
    by (simp add: bn)
  show ?thesis
    using m p o e t bn r1 r2 register_form_normalized register_form_email by simp
qed

text \<open>
  The two writes are not one operation: when the first succeeds and the second does not
  reach the store, the directory entry exists and the profile does not.
\<close>

theorem register_partial_counterexample:
  "usernames (snd (onAuthSubmit toLowerCase_ascii register_form (fails_at 2) (Inr (js ''uidA'')) 5
       empty_store)) (js ''alice'') =
     Some \<lparr>dir_uid = js ''uidA'', dir_email = js ''alice@example.com'',
            dir_username = js ''alice''\<rparr> \<and>
   users (snd (onAuthSubmit toLowerCase_ascii register_form (fails_at 2) (Inr (js ''uidA'')) 5
       empty_store)) (js ''uidA'') = None"
proof -
  have "snd (onAuthSubmit toLowerCase_ascii register_form (fails_at 2) (Inr (js ''uidA'')) 5
      empty_store) =
     empty_store\<lparr>usernames := (usernames empty_store)
       (normalizedUsername toLowerCase_ascii register_form \<mapsto>
          \<lparr>dir_uid = js ''uidA'', dir_email = trim (email register_form),
           dir_username = normalizedUsername toLowerCase_ascii register_form\<rparr>)\<rparr>"
  proof (rule register_profile_write_fails)
    show "mode register_form = Register" by (simp add: register_form_def)
    show "normalizedUsername toLowerCase_ascii register_form \<noteq> []"
      unfolding register_form_normalized by (simp add: js_def)
    show "password register_form \<noteq> []" by (simp add: register_form_def js_def)
    show "trim (email register_form) \<noteq> []" unfolding register_form_email by (simp add: js_def)
    show "fails_at 2 0" "fails_at 2 1" "\<not> fails_at 2 2" by (simp_all add: fails_at_def)
    show "usernames empty_store (normalizedUsername toLowerCase_ascii register_form) = None"
      by (simp add: empty_store_def)
  qed
  then show ?thesis
    by (simp add: register_form_normalized register_form_email empty_store_def)
qed

subsection \<open>The messages subscription\<close>

lemma sorted_map_fst_key:
  fixes f :: "'a \<Rightarrow> nat" and g :: "'a \<Rightarrow> js_string"
  shows "sorted (map (\<lambda>d. (f d, g d)) xs) \<Longrightarrow> sorted (map f xs)"
  by (induction xs) (auto simp: less_eq_prod_def)

lemma committed_sorted:
  fixes ds :: "(js_string \<times> message_doc) list"
  shows "sorted (map (\<lambda>d. doc_createdAt (snd d))
     (sort_key (\<lambda>d. (doc_createdAt (snd d), fst d)) ds))"
  using sorted_sort_key [of "\<lambda>d. (doc_createdAt (snd d), fst d)" ds]
  by (rule sorted_map_fst_key [where f = "\<lambda>d. doc_createdAt (snd d)" and g = fst])

lemma committed_arrival_order:
  fixes xs ys :: "(js_string \<times> message_doc) list"
  assumes "distinct (map fst xs)" and "mset ys = mset xs"
  shows "sort_key (\<lambda>d. (doc_createdAt (snd d), fst d)) ys =
         sort_key (\<lambda>d. (doc_createdAt (snd d), fst d)) xs"
proof -
  let ?key = "\<lambda>d :: js_string \<times> message_doc. (doc_createdAt (snd d), fst d)"
  have "set ys = set xs" using assms(2) by (rule mset_eq_setD)
  moreover have "inj_on fst (set xs)" using assms(1) by (simp add: distinct_map)
  ultimately have "inj_on ?key (set ys)" by (auto simp: inj_on_def)
  moreover have "sorted (map ?key (sort_key ?key xs))" by (rule sorted_sort_key)
  moreover have "mset ys = mset (sort_key ?key xs)" using assms(2) by simp
  ultimately show ?thesis by (rule sort_key_inj_key_eq [rotated 1])
qed

lemma messagesDelivery_messages:
  assumes "currentUser c = Some u" and "activeFriend c = Some f" and "trimmedName c \<noteq> []"
  shows "messages (messagesDelivery c st own_pending) =
     map (\<lambda>d. \<lparr>authorUid = authorUid (snd d), authorUsername = authorUsername (snd d),
                msg_text = msg_text (snd d), msg_id = fst d,
                msg_createdAt = Some (doc_createdAt (snd d))\<rparr>)
       (sort_key (\<lambda>d. (doc_createdAt (snd d), fst d)) (chatMessages st (getChatId u (uid f)))) @
     map (\<lambda>p. \<lparr>authorUid = authorUid (snd p), authorUsername = authorUsername (snd p),
                msg_text = msg_text (snd p), msg_id = fst p, msg_createdAt = None\<rparr>)
       own_pending"
  using assms getChatId_nonempty [of u "uid f"]
  by (simp add: messagesDelivery_def activeChatId_def onMessagesSnapshot_def messagesQuery_def
      snapshot_docs_def to_message_def committed_data_def pending_data_def o_def)

text \<open>
  Claim C8. For two participants who have selected each other, a delivery of the messages
  subscription replaces the list the component held by the whole snapshot of the query on
  their channel. The list does not depend on the former list. It holds every message the
  store has committed to the channel, with its identifier, author, text and the creation time
  the store assigned, ascending in that time; after them come the receiver's own messages
  that the store has not acknowledged yet, whose creation time is still \<^verbatim>\<open>null\<close>. The
  committed part is the same list for both participants, also from two copies of the
  store that received the same messages in different orders, so that without
  unacknowledged messages both hold the identical list.
\<close>

theorem snapshot_full_sorted_same_for_both:
  assumes "currentUser cA = Some a" and "activeFriend cA = Some fB" and "uid fB = b"
    and "trimmedName cA \<noteq> []"
    and "currentUser cB = Some b" and "activeFriend cB = Some fA" and "uid fA = a"
    and "trimmedName cB \<noteq> []"
  shows "messages (messagesDelivery cA st pA) =
           map (\<lambda>d. \<lparr>authorUid = authorUid (snd d), authorUsername = authorUsername (snd d),
                      msg_text = msg_text (snd d), msg_id = fst d,
                      msg_createdAt = Some (doc_createdAt (snd d))\<rparr>)
             (sort_key (\<lambda>d. (doc_createdAt (snd d), fst d)) (chatMessages st (getChatId a b))) @
           map (\<lambda>p. \<lparr>authorUid = authorUid (snd p), authorUsername = authorUsername (snd p),
                      msg_text = msg_text (snd p), msg_id = fst p, msg_createdAt = None\<rparr>) pA \<and>
         messages (messagesDelivery cB st pB) =
           map (\<lambda>d. \<lparr>authorUid = authorUid (snd d), authorUsername = authorUsername (snd d),
                      msg_text = msg_text (snd d), msg_id = fst d,
                      msg_createdAt = Some (doc_createdAt (snd d))\<rparr>)
             (sort_key (\<lambda>d. (doc_createdAt (snd d), fst d)) (chatMessages st (getChatId a b))) @
           map (\<lambda>p. \<lparr>authorUid = authorUid (snd p), authorUsername = authorUsername (snd p),
                      msg_text = msg_text (snd p), msg_id = fst p, msg_createdAt = None\<rparr>) pB \<and>
         messages (messagesDelivery (cA\<lparr>messages := old\<rparr>) st pA) =
           messages (messagesDelivery cA st pA) \<and>
         mset (map (\<lambda>m. (msg_id m, authorUid m, authorUsername m, msg_text m, msg_createdAt m))
                 (messages (messagesDelivery cA st []))) =
           mset (map (\<lambda>d. (fst d, authorUid (snd d), authorUsername (snd d), msg_text (snd d),
                            Some (doc_createdAt (snd d))))
                   (chatMessages st (getChatId a b))) \<and>
         (\<exists>ts. sorted ts \<and>
               map msg_createdAt (messages (messagesDelivery cA st pA)) =
                 map Some ts @ replicate (length pA) None) \<and>
         messages (messagesDelivery cB st []) = messages (messagesDelivery cA st []) \<and>
         (distinct (map fst (chatMessages st (getChatId a b))) \<and>
          mset (chatMessages st' (getChatId a b)) = mset (chatMessages st (getChatId a b)) \<longrightarrow>
            messages (messagesDelivery cB st' []) = messages (messagesDelivery cA st []))"
proof -
  let ?key = "\<lambda>d :: js_string \<times> message_doc. (doc_createdAt (snd d), fst d)"
  let ?com = "\<lambda>d :: js_string \<times> message_doc.
      \<lparr>authorUid = authorUid (snd d), authorUsername = authorUsername (snd d),
       msg_text = msg_text (snd d), msg_id = fst d,
       msg_createdAt = Some (doc_createdAt (snd d))\<rparr>"
  let ?pen = "\<lambda>p :: js_string \<times> message_payload.
      \<lparr>authorUid = authorUid (snd p), authorUsername = authorUsername (snd p),
       msg_text = msg_text (snd p), msg_id = fst p, msg_createdAt = None\<rparr>"
  let ?ch = "getChatId a b"
  have A: "messages (messagesDelivery cA s p) =
      map ?com (sort_key ?key (chatMessages s ?ch)) @ map ?pen p" for s p
    using messagesDelivery_messages [OF assms(1,2,4), of s p] by (simp add: assms(3))
  have B: "messages (messagesDelivery cB s p) =
      map ?com (sort_key ?key (chatMessages s ?ch)) @ map ?pen p" for s p
    using messagesDelivery_messages [OF assms(5,6,8), of s p]
    by (simp add: assms(7) getChatId_commute [of b a])
  have O: "messages (messagesDelivery (cA\<lparr>messages := old\<rparr>) st pA) =
      map ?com (sort_key ?key (chatMessages st ?ch)) @ map ?pen pA"
    using messagesDelivery_messages [of "cA\<lparr>messages := old\<rparr>" a fB st pA] assms(1,2,4)
    by (simp add: assms(3) trimmedName_def)
  have M: "mset (map (\<lambda>m. (msg_id m, authorUid m, authorUsername m, msg_text m, msg_createdAt m))
                 (messages (messagesDelivery cA st []))) =
           mset (map (\<lambda>d. (fst d, authorUid (snd d), authorUsername (snd d), msg_text (snd d),
                            Some (doc_createdAt (snd d))))
                   (chatMessages st ?ch))"
  proof -
    have "map (\<lambda>m. (msg_id m, authorUid m, authorUsername m, msg_text m, msg_createdAt m))
            (messages (messagesDelivery cA st [])) =
          map (\<lambda>d. (fst d, authorUid (snd d), authorUsername (snd d), msg_text (snd d),
                      Some (doc_createdAt (snd d))))
            (sort_key ?key (chatMessages st ?ch))"
      by (simp add: A o_def)
    then show ?thesis by (simp only: mset_map mset_sort)
  qed
  have S: "\<exists>ts. sorted ts \<and>
               map msg_createdAt (messages (messagesDelivery cA st pA)) =
                 map Some ts @ replicate (length pA) None"
  proof (intro exI conjI)
    show "sorted (map (\<lambda>d. doc_createdAt (snd d)) (sort_key ?key (chatMessages st ?ch)))"
      by (rule committed_sorted)
    show "map msg_createdAt (messages (messagesDelivery cA st pA)) =
        map Some (map (\<lambda>d. doc_createdAt (snd d)) (sort_key ?key (chatMessages st ?ch))) @
        replicate (length pA) None"
      by (simp add: A o_def map_replicate_const)
  qed
  have E: "messages (messagesDelivery cB st []) = messages (messagesDelivery cA st [])"
    by (simp only: A B)
  have R: "distinct (map fst (chatMessages st ?ch)) \<and>
          mset (chatMessages st' ?ch) = mset (chatMessages st ?ch) \<longrightarrow>
            messages (messagesDelivery cB st' []) = messages (messagesDelivery cA st [])"
    using committed_arrival_order [of "chatMessages st ?ch" "chatMessages st' ?ch"]
    by (auto simp: A B)
  from A [of st pA] B [of st pB] O M S E R show ?thesis by (simp only: simp_thms)
qed

theorem snapshot_full_sorted_same_for_both_witness:
  "currentUser alice_chatting = Some (js ''uidA'') \<and>
   activeFriend alice_chatting = Some friend_bob \<and>
   uid friend_bob = js ''uidB'' \<and> trimmedName alice_chatting = js ''alice'' \<and>
   currentUser bob_chatting = Some (js ''uidB'') \<and>
   activeFriend bob_chatting = Some friend_alice \<and>
   uid friend_alice = js ''uidA'' \<and> trimmedName bob_chatting = js ''bob'' \<and>
   messages (messagesDelivery alice_chatting
       (store_chat [(js ''m2'', message_m2), (js ''m1'', message_m1)])
       [(js ''m3'', pending_m3)]) =
     [\<lparr>authorUid = js ''uidA'', authorUsername = js ''alice'', msg_text = js ''hi'',
       msg_id = js ''m1'', msg_createdAt = Some 6\<rparr>,
      \<lparr>authorUid = js ''uidB'', authorUsername = js ''bob'', msg_text = js ''hello'',
       msg_id = js ''m2'', msg_createdAt = Some 8\<rparr>,
      \<lparr>authorUid = js ''uidA'', authorUsername = js ''alice'', msg_text = js ''bye'',
       msg_id = js ''m3'', msg_createdAt = None\<rparr>] \<and>
   messages (messagesDelivery bob_chatting
       (store_chat [(js ''m1'', message_m1), (js ''m2'', message_m2)]) []) =
     [\<lparr>authorUid = js ''uidA'', authorUsername = js ''alice'', msg_text = js ''hi'',
       msg_id = js ''m1'', msg_createdAt = Some 6\<rparr>,
      \<lparr>authorUid = js ''uidB'', authorUsername = js ''bob'', msg_text = js ''hello'',
       msg_id = js ''m2'', msg_createdAt = Some 8\<rparr>]"
proof -
  let ?st = "store_chat [(js ''m2'', message_m2), (js ''m1'', message_m1)]"
  let ?st' = "store_chat [(js ''m1'', message_m1), (js ''m2'', message_m2)]"
  let ?key = "\<lambda>d :: js_string \<times> message_doc. (doc_createdAt (snd d), fst d)"
  have a1: "currentUser alice_chatting = Some (js ''uidA'')"
    by (simp add: alice_chatting_def examples)
  have a2: "activeFriend alice_chatting = Some friend_bob" by (simp add: alice_chatting_def)
  have a3: "uid friend_bob = js ''uidB''" by (simp add: friend_bob_def)
  have a4: "trimmedName alice_chatting = js ''alice''"
    by (simp add: alice_chatting_def examples trimmedName_def trim_def js_whitespace_def js_def)
  have b1: "currentUser bob_chatting = Some (js ''uidB'')" by (simp add: bob_chatting_def)
  have b2: "activeFriend bob_chatting = Some friend_alice" by (simp add: bob_chatting_def)
  have b3: "uid friend_alice = js ''uidA''" by (simp add: friend_alice_def)
  have b4: "trimmedName bob_chatting = js ''bob''"
    by (simp add: bob_chatting_def initial_app_def trimmedName_def trim_def js_whitespace_def
        js_def)
  have n4: "trimmedName alice_chatting \<noteq> []" unfolding a4 by (simp add: js_def)
  have m4: "trimmedName bob_chatting \<noteq> []" unfolding b4 by (simp add: js_def)
  have ch: "getChatId (js ''uidA'') (js ''uidB'') = js ''uidA__uidB''"
    by (simp add: getChatId_cases js_def)
  have q: "sort_key ?key (chatMessages ?st (js ''uidA__uidB'')) =
      [(js ''m1'', message_m1), (js ''m2'', message_m2)]"
    by (simp add: store_chat_def empty_store_def message_m1_def message_m2_def js_def)
  have q': "sort_key ?key (chatMessages ?st' (js ''uidA__uidB'')) =
      [(js ''m1'', message_m1), (js ''m2'', message_m2)]"
    by (simp add: store_chat_def empty_store_def message_m1_def message_m2_def js_def)
  have ra: "messages (messagesDelivery alice_chatting ?st [(js ''m3'', pending_m3)]) =
     [\<lparr>authorUid = js ''uidA'', authorUsername = js ''alice'', msg_text = js ''hi'',
       msg_id = js ''m1'', msg_createdAt = Some 6\<rparr>,
      \<lparr>authorUid = js ''uidB'', authorUsername = js ''bob'', msg_text = js ''hello'',
       msg_id = js ''m2'', msg_createdAt = Some 8\<rparr>,
      \<lparr>authorUid = js ''uidA'', authorUsername = js ''alice'', msg_text = js ''bye'',
       msg_id = js ''m3'', msg_createdAt = None\<rparr>]"
    using snapshot_full_sorted_same_for_both [OF a1 a2 a3 n4 b1 b2 b3 m4,
        of ?st "[(js ''m3'', pending_m3)]" "[]" "[]" ?st', THEN conjunct1]
    unfolding ch q by (simp add: message_m1_def message_m2_def pending_m3_def)
  have rb: "messages (messagesDelivery bob_chatting ?st' []) =
     [\<lparr>authorUid = js ''uidA'', authorUsername = js ''alice'', msg_text = js ''hi'',
       msg_id = js ''m1'', msg_createdAt = Some 6\<rparr>,
      \<lparr>authorUid = js ''uidB'', authorUsername = js ''bob'', msg_text = js ''hello'',
       msg_id = js ''m2'', msg_createdAt = Some 8\<rparr>]"
    using snapshot_full_sorted_same_for_both [OF a1 a2 a3 n4 b1 b2 b3 m4,
        of ?st' "[]" "[]" "[]" ?st, THEN conjunct2, THEN conjunct1]
    unfolding ch q' by (simp add: message_m1_def message_m2_def)
  show ?thesis
    using a1 a2 a3 a4 b1 b2 b3 b4 ra rb by simp
qed

end
